theory Spec2Isabelle
  imports Complex_Main "HOL-Library.Sublist"
begin

section \<open>Python values and the provider's data frames\<close>

text \<open>
  The service is a thin layer over the Trading Economics client. A cell of a frame the
  client returns is dynamically typed; the model keeps the three shapes the response
  models distinguish: \<^verbatim>\<open>None\<close>, a string, and a float. Floats are only
  carried along, never computed with, so their representation is the type parameter
  \<open>'f\<close>.
\<close>

datatype 'f pyval = PyNone | PyStr string | PyFloat 'f

text \<open>
  A pandas frame: its column labels and its rows. A row gives the cell under each label;
  only the labels in \<open>columns\<close> are looked at.
\<close>

record 'f dataframe =
  columns :: "string list"
  rows :: "(string \<Rightarrow> 'f pyval) list"

type_synonym 'f series = "string list \<times> (string \<Rightarrow> 'f pyval)"

text \<open>\<^verbatim>\<open>data.empty\<close>: true when one of the two axes has length 0.\<close>

definition df_empty :: "'f dataframe \<Rightarrow> bool" where
  "df_empty df = (columns df = [] \<or> rows df = [])"

text \<open>\<^verbatim>\<open>data.iloc[-1]\<close>: the last row, read only when the frame is not empty.\<close>

definition iloc_last :: "'f dataframe \<Rightarrow> 'f series" where
  "iloc_last df = (columns df, last (rows df))"

text \<open>\<^verbatim>\<open>latest.get(key, default)\<close>: the cell when the label exists, else the default.\<close>

fun series_get :: "'f series \<Rightarrow> string \<Rightarrow> 'f pyval \<Rightarrow> 'f pyval" where
  "series_get (cols, row) key dflt = (if key \<in> set cols then row key else dflt)"

text \<open>
  What one call of \<^verbatim>\<open>te.getIndicatorData(..., output_type='df')\<close> does: it raises,
  returns \<^verbatim>\<open>None\<close>, or returns a frame. A result that is no frame makes
  \<^verbatim>\<open>data.empty\<close> raise inside the same \<^verbatim>\<open>try\<close>, so it counts as a raise.
\<close>

datatype 'f te_result = TeRaises | TeNone | TeFrame "'f dataframe"

section \<open>Environment and state\<close>

text \<open>
  The parts of the world the program does not own are parameters:
  \<^item> \<open>getIndicatorData\<close>: the provider. Its answer may change from call to call, so
    it is a function of the calls made so far as well as of the country and the
    indicator asked for;
  \<^item> \<open>now_isoformat\<close>: \<^verbatim>\<open>datetime.now().isoformat()\<close> at the n-th reading of the
    clock;
  \<^item> \<open>float_of_str\<close>: how the response models read a string given for a float field
    (a numeral is accepted, anything else is rejected);
  \<^item> \<open>str_of_float\<close>: how they treat a float given for a string field (coerced by
    some versions of the validation library, rejected by others);
  \<^item> \<open>unicode_upper\<close>: the uppercase mapping of the Unicode character database for
    one character outside ASCII, taken and given in UTF-8 (U+017F gives \<^verbatim>\<open>S\<close>,
    U+00DF gives \<^verbatim>\<open>SS\<close>).
\<close>

record 'f env =
  getIndicatorData :: "(string \<times> string) list \<Rightarrow> string \<Rightarrow> string \<Rightarrow> 'f te_result"
  now_isoformat :: "nat \<Rightarrow> string"
  float_of_str :: "string \<Rightarrow> 'f option"
  str_of_float :: "'f \<Rightarrow> string option"
  unicode_upper :: "string \<Rightarrow> string"

text \<open>Log lines, one constructor per logging statement of the source.\<close>

datatype log_entry =
    Warning_fetch string string
  | Error_indicators string
  | Error_pair
  | Warning_pair string string

text \<open>
  The state threaded through every operation: the provider calls made so far
  (country, indicator), the number of clock readings, and the log.
\<close>

record world =
  calls :: "(string \<times> string) list"
  ticks :: nat
  log :: "log_entry list"

text \<open>
  Exceptions as values: a validation error of a response model, a \<^verbatim>\<open>KeyError\<close> of a
  dictionary subscript, and the framework's \<^verbatim>\<open>HTTPException\<close> with its status code
  and detail.
\<close>

datatype error = ValidationError | KeyError string | HTTPException nat string

section \<open>Response models\<close>

record 'f EconomicIndicator =
  ei_country :: string
  ei_indicator :: string
  ei_value :: "'f option"
  ei_previous_value :: "'f option"
  ei_last_update :: "string option"
  ei_unit :: "string option"
  ei_frequency :: "string option"

record 'f CountryEconomicData =
  country :: string
  interest_rate :: "'f EconomicIndicator option"
  gdp_growth :: "'f EconomicIndicator option"
  inflation_rate :: "'f EconomicIndicator option"
  unemployment_rate :: "'f EconomicIndicator option"
  last_updated :: string

record 'f CurrencyPairData =
  base_currency :: string
  quote_currency :: string
  base_country_data :: "'f CountryEconomicData"
  quote_country_data :: "'f CountryEconomicData"

text \<open>
  The dictionary \<^verbatim>\<open>safe_get_indicator_data\<close> returns always has the same seven
  keys, so it is a record of seven dynamically typed values.
\<close>

record 'f indicator_dict =
  d_country :: "'f pyval"
  d_indicator :: "'f pyval"
  d_value :: "'f pyval"
  d_previous_value :: "'f pyval"
  d_last_update :: "'f pyval"
  d_unit :: "'f pyval"
  d_frequency :: "'f pyval"

subsection \<open>Field validation of the response models\<close>

text \<open>A field declared \<^verbatim>\<open>str\<close>.\<close>

fun validate_str :: "'f env \<Rightarrow> 'f pyval \<Rightarrow> error + string" where
  "validate_str env (PyStr s) = Inr s"
| "validate_str env (PyFloat x) =
     (case str_of_float env x of Some s \<Rightarrow> Inr s | None \<Rightarrow> Inl ValidationError)"
| "validate_str env PyNone = Inl ValidationError"

text \<open>A field declared \<^verbatim>\<open>Optional[str]\<close>.\<close>

fun validate_opt_str :: "'f env \<Rightarrow> 'f pyval \<Rightarrow> error + string option" where
  "validate_opt_str env PyNone = Inr None"
| "validate_opt_str env v =
     (case validate_str env v of Inl e \<Rightarrow> Inl e | Inr s \<Rightarrow> Inr (Some s))"

text \<open>A field declared \<^verbatim>\<open>Optional[float]\<close>.\<close>

fun validate_opt_float :: "'f env \<Rightarrow> 'f pyval \<Rightarrow> error + 'f option" where
  "validate_opt_float env PyNone = Inr None"
| "validate_opt_float env (PyFloat x) = Inr (Some x)"
| "validate_opt_float env (PyStr s) =
     (case float_of_str env s of Some x \<Rightarrow> Inr (Some x) | None \<Rightarrow> Inl ValidationError)"

text \<open>\<^verbatim>\<open>EconomicIndicator(**indicator_data)\<close>: every field is validated against its
  declared type; the construction raises when one of them does not fit.\<close>

definition EconomicIndicator_init ::
  "'f env \<Rightarrow> 'f indicator_dict \<Rightarrow> error + 'f EconomicIndicator" where
  "EconomicIndicator_init env d =
     (case validate_str env (d_country d) of Inl e \<Rightarrow> Inl e | Inr c \<Rightarrow>
     (case validate_str env (d_indicator d) of Inl e \<Rightarrow> Inl e | Inr i \<Rightarrow>
     (case validate_opt_float env (d_value d) of Inl e \<Rightarrow> Inl e | Inr v \<Rightarrow>
     (case validate_opt_float env (d_previous_value d) of Inl e \<Rightarrow> Inl e | Inr p \<Rightarrow>
     (case validate_opt_str env (d_last_update d) of Inl e \<Rightarrow> Inl e | Inr l \<Rightarrow>
     (case validate_opt_str env (d_unit d) of Inl e \<Rightarrow> Inl e | Inr u \<Rightarrow>
     (case validate_opt_str env (d_frequency d) of Inl e \<Rightarrow> Inl e | Inr f \<Rightarrow>
        Inr \<lparr>ei_country = c, ei_indicator = i, ei_value = v, ei_previous_value = p,
             ei_last_update = l, ei_unit = u, ei_frequency = f\<rparr>)))))))"

section \<open>Helper functions\<close>

text \<open>
  \<^verbatim>\<open>safe_get_indicator_data\<close>: one provider call. A raise is caught and logged as a
  warning; \<^verbatim>\<open>None\<close> and an empty frame fall through to \<^verbatim>\<open>return None\<close>.
\<close>

definition safe_get_indicator_data ::
  "'f env \<Rightarrow> world \<Rightarrow> string \<Rightarrow> string \<Rightarrow> 'f indicator_dict option \<times> world" where
  "safe_get_indicator_data env s cntry indicator =
     (let s1 = s\<lparr>calls := calls s @ [(cntry, indicator)]\<rparr> in
      case getIndicatorData env (calls s) cntry indicator of
        TeRaises \<Rightarrow> (None, s1\<lparr>log := log s1 @ [Warning_fetch indicator cntry]\<rparr>)
      | TeNone \<Rightarrow> (None, s1)
      | TeFrame data \<Rightarrow>
          if \<not> df_empty data then
            (let latest = iloc_last data in
             (Some \<lparr>d_country = series_get latest ''Country'' (PyStr cntry),
                    d_indicator = PyStr indicator,
                    d_value = series_get latest ''LastUpdate'' PyNone,
                    d_previous_value = series_get latest ''PreviousValue'' PyNone,
                    d_last_update = series_get latest ''LastUpdate'' PyNone,
                    d_unit = series_get latest ''Unit'' PyNone,
                    d_frequency = series_get latest ''Frequency'' PyNone\<rparr>, s1))
          else (None, s1))"

text \<open>The local table of \<^verbatim>\<open>get_country_economic_data\<close>, in its insertion order.\<close>

definition indicators :: "(string \<times> string) list" where
  "indicators =
     [(''interest_rate'', ''Interest Rate''),
      (''gdp_growth'', ''GDP Growth Rate''),
      (''inflation_rate'', ''Inflation Rate''),
      (''unemployment_rate'', ''Unemployment Rate'')]"

text \<open>
  The loop of \<^verbatim>\<open>get_country_economic_data\<close> over the table, filling the dictionary
  \<open>data\<close>. A fetched dictionary is turned into an \<open>EconomicIndicator\<close> outside any
  \<^verbatim>\<open>try\<close>, so a validation error leaves the loop at once.
\<close>

fun fetch_indicators ::
  "'f env \<Rightarrow> string \<Rightarrow> (string \<times> string) list \<Rightarrow> (string \<rightharpoonup> 'f EconomicIndicator option) \<Rightarrow>
   world \<Rightarrow> (error + (string \<rightharpoonup> 'f EconomicIndicator option)) \<times> world" where
  "fetch_indicators env cntry [] data s = (Inr data, s)"
| "fetch_indicators env cntry ((key, indicator) # rest) data s =
     (case safe_get_indicator_data env s cntry indicator of
        (None, s1) \<Rightarrow> fetch_indicators env cntry rest (data(key \<mapsto> None)) s1
      | (Some indicator_data, s1) \<Rightarrow>
          (case EconomicIndicator_init env indicator_data of
             Inl e \<Rightarrow> (Inl e, s1)
           | Inr ei \<Rightarrow> fetch_indicators env cntry rest (data(key \<mapsto> Some ei)) s1))"

text \<open>
  \<^verbatim>\<open>CountryEconomicData(country=country, **data, last_updated=...)\<close>: the four slots
  are keyword arguments taken from the dictionary; a slot that is not supplied is a
  validation error.
\<close>

definition CountryEconomicData_init ::
  "string \<Rightarrow> (string \<rightharpoonup> 'f EconomicIndicator option) \<Rightarrow> string \<Rightarrow> error + 'f CountryEconomicData" where
  "CountryEconomicData_init cntry data ts =
     (case data ''interest_rate'' of None \<Rightarrow> Inl ValidationError | Some ir \<Rightarrow>
     (case data ''gdp_growth'' of None \<Rightarrow> Inl ValidationError | Some gdp \<Rightarrow>
     (case data ''inflation_rate'' of None \<Rightarrow> Inl ValidationError | Some infl \<Rightarrow>
     (case data ''unemployment_rate'' of None \<Rightarrow> Inl ValidationError | Some un \<Rightarrow>
        Inr \<lparr>country = cntry, interest_rate = ir, gdp_growth = gdp, inflation_rate = infl,
             unemployment_rate = un, last_updated = ts\<rparr>))))"

definition get_country_economic_data ::
  "'f env \<Rightarrow> world \<Rightarrow> string \<Rightarrow> (error + 'f CountryEconomicData) \<times> world" where
  "get_country_economic_data env s cntry =
     (case fetch_indicators env cntry indicators Map.empty s of
        (Inl e, s1) \<Rightarrow> (Inl e, s1)
      | (Inr data, s1) \<Rightarrow>
          (CountryEconomicData_init cntry data (now_isoformat env (ticks s1)),
           s1\<lparr>ticks := Suc (ticks s1)\<rparr>))"

section \<open>The static table\<close>

text \<open>A Python dictionary keeps its insertion order, which \<^verbatim>\<open>keys()\<close> and
  \<^verbatim>\<open>values()\<close> expose: the table is an association list.\<close>

definition CURRENCY_COUNTRY_MAP :: "(string \<times> string) list" where
  "CURRENCY_COUNTRY_MAP =
     [(''USD'', ''United States''), (''EUR'', ''Euro Area''), (''GBP'', ''United Kingdom''),
      (''JPY'', ''Japan''), (''CHF'', ''Switzerland''), (''CAD'', ''Canada''),
      (''AUD'', ''Australia''), (''NZD'', ''New Zealand''), (''SEK'', ''Sweden''),
      (''NOK'', ''Norway''), (''DKK'', ''Denmark''), (''PLN'', ''Poland''),
      (''CZK'', ''Czech Republic''), (''HUF'', ''Hungary''), (''SGD'', ''Singapore''),
      (''HKD'', ''Hong Kong''), (''KRW'', ''South Korea''), (''CNY'', ''China''),
      (''INR'', ''India''), (''BRL'', ''Brazil''), (''MXN'', ''Mexico''),
      (''ZAR'', ''South Africa''), (''RUB'', ''Russia''), (''TRY'', ''Turkey'')]"

definition dict_keys :: "('k \<times> 'v) list \<Rightarrow> 'k list" where
  "dict_keys d = map fst d"


text \<open>
  \<^verbatim>\<open>str.upper()\<close>. A string is held as its UTF-8 bytes. Python maps every character
  on its own: an ASCII letter a to z moves to A to Z and every other ASCII character
  stays; a character outside ASCII (a lead byte with its continuation bytes) is mapped
  by the Unicode table, which may give ASCII letters and more than one character.
\<close>

definition ascii_upper :: "char \<Rightarrow> char" where
  "ascii_upper c =
     (let n = (of_char c :: nat) in if 97 \<le> n \<and> n \<le> 122 then char_of (n - 32) else c)"

definition is_continuation :: "char \<Rightarrow> bool" where
  "is_continuation c = (128 \<le> (of_char c :: nat) \<and> (of_char c :: nat) < 192)"

function upper :: "'f env \<Rightarrow> string \<Rightarrow> string" where
  "upper env [] = []"
| "upper env (c # cs) =
     (if (of_char c :: nat) < 128 then ascii_upper c # upper env cs
      else unicode_upper env (c # takeWhile is_continuation cs)
           @ upper env (dropWhile is_continuation cs))"
  by pat_completeness auto
termination
  by (relation "measure (\<lambda>(env, s). length s)")
     (auto simp add: length_dropWhile_le le_imp_less_Suc)

declare upper.simps [simp del]

text \<open>\<^verbatim>\<open>d[key]\<close>\<close>

definition dict_subscript :: "(string \<times> 'v) list \<Rightarrow> string \<Rightarrow> error + 'v" where
  "dict_subscript d key = (case map_of d key of None \<Rightarrow> Inl (KeyError key) | Some v \<Rightarrow> Inr v)"

section \<open>Endpoints\<close>

text \<open>
  An endpoint returns its body or raises. The framework answers 200 with the body, the
  status of an \<^verbatim>\<open>HTTPException\<close>, and 500 for any other exception.
\<close>

fun status_code :: "error + 'a \<Rightarrow> nat" where
  "status_code (Inr body) = 200"
| "status_code (Inl (HTTPException code detail)) = code"
| "status_code (Inl e) = 500"

text \<open>\<^verbatim>\<open>GET /currencies\<close>\<close>

definition get_available_currencies :: "world \<Rightarrow> (error + string list) \<times> world" where
  "get_available_currencies s = (Inr (dict_keys CURRENCY_COUNTRY_MAP), s)"

text \<open>\<^verbatim>\<open>GET /indicators/{country}\<close>\<close>

definition get_country_indicators ::
  "'f env \<Rightarrow> world \<Rightarrow> string \<Rightarrow> (error + 'f CountryEconomicData) \<times> world" where
  "get_country_indicators env s cntry =
     (case get_country_economic_data env s cntry of
        (Inr data, s1) \<Rightarrow> (Inr data, s1)
      | (Inl e, s1) \<Rightarrow>
          (Inl (HTTPException 500 (''Error fetching data for '' @ cntry)),
           s1\<lparr>log := log s1 @ [Error_indicators cntry]\<rparr>))"

text \<open>\<^verbatim>\<open>GET /currency-pairs/{base}/{quote}\<close>\<close>

definition get_currency_pair_data ::
  "'f env \<Rightarrow> world \<Rightarrow> string \<Rightarrow> string \<Rightarrow> (error + 'f CurrencyPairData) \<times> world" where
  "get_currency_pair_data env s base_in quote_in =
     (let base = upper env base_in; quote = upper env quote_in in
      if base \<notin> set (dict_keys CURRENCY_COUNTRY_MAP) then
        (Inl (HTTPException 404 (''Currency '' @ base @ '' not supported'')), s)
      else if quote \<notin> set (dict_keys CURRENCY_COUNTRY_MAP) then
        (Inl (HTTPException 404 (''Currency '' @ quote @ '' not supported'')), s)
      else
        (case dict_subscript CURRENCY_COUNTRY_MAP base of Inl e \<Rightarrow> (Inl e, s)
         | Inr base_country \<Rightarrow>
        (case dict_subscript CURRENCY_COUNTRY_MAP quote of Inl e \<Rightarrow> (Inl e, s)
         | Inr quote_country \<Rightarrow>
        (case get_country_economic_data env s base_country of
           (Inl e, s1) \<Rightarrow>
             (Inl (HTTPException 500 ''Error fetching currency pair data''),
              s1\<lparr>log := log s1 @ [Error_pair]\<rparr>)
         | (Inr base_data, s1) \<Rightarrow>
        (case get_country_economic_data env s1 quote_country of
           (Inl e, s2) \<Rightarrow>
             (Inl (HTTPException 500 ''Error fetching currency pair data''),
              s2\<lparr>log := log s2 @ [Error_pair]\<rparr>)
         | (Inr quote_data, s2) \<Rightarrow>
             (Inr \<lparr>base_currency = base, quote_currency = quote,
                   base_country_data = base_data, quote_country_data = quote_data\<rparr>,
              s2))))))"












section \<open>Notions used to state the properties\<close>

text \<open>A provider call fails when it raises, returns \<^verbatim>\<open>None\<close>, or returns an empty
  frame.\<close>

fun provider_fails :: "'f te_result \<Rightarrow> bool" where
  "provider_fails TeRaises = True"
| "provider_fails TeNone = True"
| "provider_fails (TeFrame data) = df_empty data"






section \<open>Example environments\<close>

text \<open>A frame of two rows; the later row is the last one.\<close>

definition example_frame :: "string \<Rightarrow> real dataframe" where
  "example_frame cntry =
     \<lparr>columns = [''Country'', ''PreviousValue'', ''Unit'', ''Frequency''],
      rows = [(\<lambda>k. PyNone)(''Country'' := PyStr cntry, ''PreviousValue'' := PyFloat 5,
                ''Unit'' := PyStr ''percent'', ''Frequency'' := PyStr ''Monthly''),
              (\<lambda>k. PyNone)(''Country'' := PyStr cntry, ''PreviousValue'' := PyFloat 4,
                ''Unit'' := PyStr ''percent'', ''Frequency'' := PyStr ''Daily'')]\<rparr>"

text \<open>A frame with a \<^verbatim>\<open>LastUpdate\<close> column.\<close>

definition dated_frame :: "real dataframe" where
  "dated_frame =
     \<lparr>columns = [''Country'', ''LastUpdate''],
      rows = [(\<lambda>k. PyNone)(''Country'' := PyStr ''Brazil'',
                ''LastUpdate'' := PyStr ''2023-12-31T00:00:00''),
              (\<lambda>k. PyNone)(''Country'' := PyStr ''Brazil'',
                ''LastUpdate'' := PyStr ''2024-01-31T00:00:00'')]\<rparr>"


text \<open>Three entries of the Unicode uppercase table (U+017F, U+0131, U+00DF); the example
  leaves every other character outside ASCII as it is.\<close>

definition example_unicode_upper :: "string \<Rightarrow> string" where
  "example_unicode_upper ch =
     (if ch = [CHR 0xC5, CHR 0xBF] then ''S''
      else if ch = [CHR 0xC4, CHR 0xB1] then ''I''
      else if ch = [CHR 0xC3, CHR 0x9F] then ''SS''
      else ch)"

text \<open>The UTF-8 bytes of the three characters lowercase u, long s (U+017F), lowercase d.\<close>

definition long_s_usd :: string where
  "long_s_usd = [CHR ''u'', CHR 0xC5, CHR 0xBF, CHR ''d'']"

text \<open>
  A provider that is down for Canada, answers \<^verbatim>\<open>None\<close> for the Euro Area, an empty
  frame for Switzerland, the dated frame for Brazil, and a well-formed frame for every
  other country. No string of these frames is a numeral, and floats are not accepted as
  strings.
\<close>

definition example_env :: "real env" where
  "example_env =
     \<lparr>getIndicatorData = (\<lambda>history cntry indicator.
        if cntry = ''Canada'' then TeRaises
        else if cntry = ''Euro Area'' then TeNone
        else if cntry = ''Switzerland'' then TeFrame \<lparr>columns = [''Country''], rows = []\<rparr>
        else if cntry = ''Brazil'' then TeFrame dated_frame
        else TeFrame (example_frame cntry)),
      now_isoformat = (\<lambda>n. ''2024-01-31T12:00:0'' @ [char_of (48 + n)]),
      float_of_str = (\<lambda>s. None),
      str_of_float = (\<lambda>x. None),
      unicode_upper = example_unicode_upper\<rparr>"





definition s0 :: world where
  "s0 = \<lparr>calls = [], ticks = 0, log = []\<rparr>"

section \<open>The static table and the currency list\<close>

lemma keys_eq:
  "dict_keys CURRENCY_COUNTRY_MAP =
     [''USD'', ''EUR'', ''GBP'', ''JPY'', ''CHF'', ''CAD'', ''AUD'', ''NZD'', ''SEK'', ''NOK'',
      ''DKK'', ''PLN'', ''CZK'', ''HUF'', ''SGD'', ''HKD'', ''KRW'', ''CNY'', ''INR'', ''BRL'',
      ''MXN'', ''ZAR'', ''RUB'', ''TRY'']"
  by (simp add: dict_keys_def CURRENCY_COUNTRY_MAP_def)


text \<open>
  Claim C6. \<^verbatim>\<open>GET /currencies\<close> returns the 24 keys of the static table in the table's
  order, whatever the state of the world, and leaves that state as it was. The table is a
  constant of the program: it is no part of the state any operation returns, so nothing
  modifies it. The keys are pairwise different, so they are exactly 24.
\<close>

theorem currencies_static:
  "get_available_currencies s =
     (Inr [''USD'', ''EUR'', ''GBP'', ''JPY'', ''CHF'', ''CAD'', ''AUD'', ''NZD'', ''SEK'',
           ''NOK'', ''DKK'', ''PLN'', ''CZK'', ''HUF'', ''SGD'', ''HKD'', ''KRW'', ''CNY'',
           ''INR'', ''BRL'', ''MXN'', ''ZAR'', ''RUB'', ''TRY''], s)
   \<and> dict_keys CURRENCY_COUNTRY_MAP = map fst CURRENCY_COUNTRY_MAP
   \<and> length (dict_keys CURRENCY_COUNTRY_MAP) = 24
   \<and> distinct (dict_keys CURRENCY_COUNTRY_MAP)"
proof -
  have "length (dict_keys CURRENCY_COUNTRY_MAP) = 24"
    by (simp add: keys_eq)
  moreover have "distinct (dict_keys CURRENCY_COUNTRY_MAP)"
    by (simp add: keys_eq)
  ultimately show ?thesis
    by (simp add: get_available_currencies_def keys_eq [symmetric] dict_keys_def)
qed

section \<open>The list endpoints: the default countries\<close>


section \<open>The currency pair endpoint: unsupported codes\<close>

lemma upper_usd: "upper env ''usd'' = ''USD''"
  by (simp add: upper.simps ascii_upper_def char_of_def bit_Suc_0_iff)

lemma upper_xyz: "upper env ''xyz'' = ''XYZ''"
  by (simp add: upper.simps ascii_upper_def char_of_def bit_Suc_0_iff)

lemma upper_GbP: "upper env ''GbP'' = ''GBP''"
  by (simp add: upper.simps ascii_upper_def char_of_def bit_Suc_0_iff)

text \<open>
  Claim C2. When the uppercased base or the uppercased quote is no key of the static
  table, \<^verbatim>\<open>GET /currency-pairs/{base}/{quote}\<close> answers 404, whatever the other code
  is, and the state is unchanged: no provider call was made.
\<close>

theorem unsupported_currency_404:
  assumes "upper env base \<notin> set (dict_keys CURRENCY_COUNTRY_MAP)
           \<or> upper env quote \<notin> set (dict_keys CURRENCY_COUNTRY_MAP)"
  shows "status_code (fst (get_currency_pair_data env s base quote)) = 404
         \<and> snd (get_currency_pair_data env s base quote) = s"
  using assms by (auto simp add: get_currency_pair_data_def Let_def)

theorem unsupported_currency_404_witness:
  "upper example_env ''xyz'' \<notin> set (dict_keys CURRENCY_COUNTRY_MAP)
   \<and> upper example_env ''usd'' \<in> set (dict_keys CURRENCY_COUNTRY_MAP)
   \<and> status_code (fst (get_currency_pair_data example_env s0 ''usd'' ''xyz'')) = 404
   \<and> calls (snd (get_currency_pair_data example_env s0 ''usd'' ''xyz'')) = []"
proof -
  have h: "upper example_env ''usd'' \<notin> set (dict_keys CURRENCY_COUNTRY_MAP)
           \<or> upper example_env ''xyz'' \<notin> set (dict_keys CURRENCY_COUNTRY_MAP)"
    by (simp add: upper_xyz keys_eq)
  have k: "upper example_env ''usd'' \<in> set (dict_keys CURRENCY_COUNTRY_MAP)"
    by (simp add: upper_usd keys_eq)
  from unsupported_currency_404 [OF h, of s0] h k show ?thesis
    by (simp add: s0_def)
qed

section \<open>The indicator fetcher\<close>

text \<open>The fetcher, case by case on what the provider does.\<close>

lemma safe_get_cases:
  "safe_get_indicator_data env s cntry indicator =
     (case getIndicatorData env (calls s) cntry indicator of
        TeRaises \<Rightarrow> (None, s\<lparr>calls := calls s @ [(cntry, indicator)],
                              log := log s @ [Warning_fetch indicator cntry]\<rparr>)
      | TeNone \<Rightarrow> (None, s\<lparr>calls := calls s @ [(cntry, indicator)]\<rparr>)
      | TeFrame data \<Rightarrow>
          if df_empty data then (None, s\<lparr>calls := calls s @ [(cntry, indicator)]\<rparr>)
          else (Some \<lparr>d_country = series_get (iloc_last data) ''Country'' (PyStr cntry),
                      d_indicator = PyStr indicator,
                      d_value = series_get (iloc_last data) ''LastUpdate'' PyNone,
                      d_previous_value = series_get (iloc_last data) ''PreviousValue'' PyNone,
                      d_last_update = series_get (iloc_last data) ''LastUpdate'' PyNone,
                      d_unit = series_get (iloc_last data) ''Unit'' PyNone,
                      d_frequency = series_get (iloc_last data) ''Frequency'' PyNone\<rparr>,
                s\<lparr>calls := calls s @ [(cntry, indicator)]\<rparr>))"
  by (cases "getIndicatorData env (calls s) cntry indicator")
     (simp_all add: safe_get_indicator_data_def Let_def)

lemma safe_get_fails:
  "provider_fails (getIndicatorData env (calls s) cntry indicator) \<Longrightarrow>
   fst (safe_get_indicator_data env s cntry indicator) = None"
  by (cases "getIndicatorData env (calls s) cntry indicator") (simp_all add: safe_get_cases)

lemma safe_get_calls:
  "calls (snd (safe_get_indicator_data env s cntry indicator)) = calls s @ [(cntry, indicator)]"
  by (cases "getIndicatorData env (calls s) cntry indicator") (simp_all add: safe_get_cases)

lemma safe_get_ticks:
  "ticks (snd (safe_get_indicator_data env s cntry indicator)) = ticks s"
  by (cases "getIndicatorData env (calls s) cntry indicator") (simp_all add: safe_get_cases)

text \<open>
  Claim C5. Every dictionary the fetcher returns comes from a frame the provider returned,
  is filled from the last row of that frame, and takes both its \<^verbatim>\<open>value\<close> and its
  \<^verbatim>\<open>last_update\<close> from the \<^verbatim>\<open>LastUpdate\<close> column of that row: the two fields are
  equal.
\<close>

theorem fetched_record_from_last_row:
  assumes "safe_get_indicator_data env s cntry indicator = (Some d, s')"
  shows "\<exists>data. getIndicatorData env (calls s) cntry indicator = TeFrame data
           \<and> rows data \<noteq> []
           \<and> d_country d = series_get (columns data, last (rows data)) ''Country'' (PyStr cntry)
           \<and> d_indicator d = PyStr indicator
           \<and> d_value d = series_get (columns data, last (rows data)) ''LastUpdate'' PyNone
           \<and> d_previous_value d = series_get (columns data, last (rows data)) ''PreviousValue'' PyNone
           \<and> d_last_update d = series_get (columns data, last (rows data)) ''LastUpdate'' PyNone
           \<and> d_unit d = series_get (columns data, last (rows data)) ''Unit'' PyNone
           \<and> d_frequency d = series_get (columns data, last (rows data)) ''Frequency'' PyNone
           \<and> d_value d = d_last_update d"
proof (cases "getIndicatorData env (calls s) cntry indicator")
  case TeRaises
  with assms show ?thesis by (simp add: safe_get_cases)
next
  case TeNone
  with assms show ?thesis by (simp add: safe_get_cases)
next
  case (TeFrame data)
  with assms have ne: "\<not> df_empty data"
    by (simp add: safe_get_cases split: if_splits)
  with assms TeFrame have d:
    "d = \<lparr>d_country = series_get (iloc_last data) ''Country'' (PyStr cntry),
          d_indicator = PyStr indicator,
          d_value = series_get (iloc_last data) ''LastUpdate'' PyNone,
          d_previous_value = series_get (iloc_last data) ''PreviousValue'' PyNone,
          d_last_update = series_get (iloc_last data) ''LastUpdate'' PyNone,
          d_unit = series_get (iloc_last data) ''Unit'' PyNone,
          d_frequency = series_get (iloc_last data) ''Frequency'' PyNone\<rparr>"
    by (simp add: safe_get_cases)
  from ne have r: "rows data \<noteq> []" by (simp add: df_empty_def)
  show ?thesis
    unfolding TeFrame d iloc_last_def using r by simp
qed

lemma fetch_brazil:
  "safe_get_indicator_data example_env s0 ''Brazil'' ''Interest Rate'' =
     (Some \<lparr>d_country = PyStr ''Brazil'', d_indicator = PyStr ''Interest Rate'',
            d_value = PyStr ''2024-01-31T00:00:00'', d_previous_value = PyNone,
            d_last_update = PyStr ''2024-01-31T00:00:00'', d_unit = PyNone,
            d_frequency = PyNone\<rparr>,
      \<lparr>calls = [(''Brazil'', ''Interest Rate'')], ticks = 0, log = []\<rparr>)"
  by (simp add: safe_get_cases example_env_def dated_frame_def df_empty_def iloc_last_def s0_def)

theorem fetched_record_from_last_row_witness:
  "safe_get_indicator_data example_env s0 ''Brazil'' ''Interest Rate'' =
     (Some \<lparr>d_country = PyStr ''Brazil'', d_indicator = PyStr ''Interest Rate'',
            d_value = PyStr ''2024-01-31T00:00:00'', d_previous_value = PyNone,
            d_last_update = PyStr ''2024-01-31T00:00:00'', d_unit = PyNone,
            d_frequency = PyNone\<rparr>,
      \<lparr>calls = [(''Brazil'', ''Interest Rate'')], ticks = 0, log = []\<rparr>)
   \<and> getIndicatorData example_env (calls s0) ''Brazil'' ''Interest Rate'' = TeFrame dated_frame
   \<and> series_get (columns dated_frame, last (rows dated_frame)) ''LastUpdate'' PyNone =
       PyStr ''2024-01-31T00:00:00''"
  using fetched_record_from_last_row [OF fetch_brazil] fetch_brazil
  by (simp add: example_env_def dated_frame_def)

section \<open>The country aggregator\<close>

lemma validate_str_error: "validate_str env v = Inl e \<Longrightarrow> e = ValidationError"
  by (cases v) (simp_all split: option.splits)









text \<open>The aggregator when the provider fails for all four indicators, each at the
  call history it is asked at.\<close>

lemma all_fetches_fail:
  assumes "provider_fails (getIndicatorData env (calls s) cntry ''Interest Rate'')"
    and "provider_fails (getIndicatorData env (calls s @ [(cntry, ''Interest Rate'')])
           cntry ''GDP Growth Rate'')"
    and "provider_fails (getIndicatorData env
           (calls s @ [(cntry, ''Interest Rate''), (cntry, ''GDP Growth Rate'')])
           cntry ''Inflation Rate'')"
    and "provider_fails (getIndicatorData env
           (calls s @ [(cntry, ''Interest Rate''), (cntry, ''GDP Growth Rate''),
                       (cntry, ''Inflation Rate'')])
           cntry ''Unemployment Rate'')"
  shows "fst (get_country_economic_data env s cntry) =
           Inr \<lparr>country = cntry, interest_rate = None, gdp_growth = None,
                inflation_rate = None, unemployment_rate = None,
                last_updated = now_isoformat env (ticks s)\<rparr>"
proof -
  define s1 where "s1 = snd (safe_get_indicator_data env s cntry ''Interest Rate'')"
  define s2 where "s2 = snd (safe_get_indicator_data env s1 cntry ''GDP Growth Rate'')"
  define s3 where "s3 = snd (safe_get_indicator_data env s2 cntry ''Inflation Rate'')"
  define s4 where "s4 = snd (safe_get_indicator_data env s3 cntry ''Unemployment Rate'')"
  have c1: "calls s1 = calls s @ [(cntry, ''Interest Rate'')]"
    by (simp add: s1_def safe_get_calls)
  have c2: "calls s2 = calls s @ [(cntry, ''Interest Rate''), (cntry, ''GDP Growth Rate'')]"
    by (simp add: s2_def safe_get_calls c1)
  have c3: "calls s3 = calls s @ [(cntry, ''Interest Rate''), (cntry, ''GDP Growth Rate''),
                                   (cntry, ''Inflation Rate'')]"
    by (simp add: s3_def safe_get_calls c2)
  have f1: "safe_get_indicator_data env s cntry ''Interest Rate'' = (None, s1)"
    using safe_get_fails [OF assms(1)] by (simp add: s1_def prod_eq_iff)
  have f2: "safe_get_indicator_data env s1 cntry ''GDP Growth Rate'' = (None, s2)"
    using safe_get_fails [of env s1 cntry "''GDP Growth Rate''"] assms(2)
    by (simp add: s2_def prod_eq_iff c1)
  have f3: "safe_get_indicator_data env s2 cntry ''Inflation Rate'' = (None, s3)"
    using safe_get_fails [of env s2 cntry "''Inflation Rate''"] assms(3)
    by (simp add: s3_def prod_eq_iff c2)
  have f4: "safe_get_indicator_data env s3 cntry ''Unemployment Rate'' = (None, s4)"
    using safe_get_fails [of env s3 cntry "''Unemployment Rate''"] assms(4)
    by (simp add: s4_def prod_eq_iff c3)
  have t: "ticks s4 = ticks s"
    by (simp add: s4_def s3_def s2_def s1_def safe_get_ticks)
  have "fetch_indicators env cntry indicators Map.empty s =
          (Inr [''interest_rate'' \<mapsto> None, ''gdp_growth'' \<mapsto> None,
                ''inflation_rate'' \<mapsto> None, ''unemployment_rate'' \<mapsto> None], s4)"
    by (simp add: indicators_def f1 f2 f3 f4)
  then show ?thesis
    by (simp add: get_country_economic_data_def CountryEconomicData_init_def t)
qed

section \<open>The indicators endpoint\<close>

text \<open>
  Claim C4. When the provider call fails (raises, returns \<^verbatim>\<open>None\<close> or returns an empty
  frame) for each of the four indicators of a country, \<^verbatim>\<open>GET /indicators/{country}\<close>
  answers 200 with a record for that country whose four indicator slots are absent.
\<close>

theorem all_fetches_fail_still_200:
  assumes "provider_fails (getIndicatorData env (calls s) cntry ''Interest Rate'')"
    and "provider_fails (getIndicatorData env (calls s @ [(cntry, ''Interest Rate'')])
           cntry ''GDP Growth Rate'')"
    and "provider_fails (getIndicatorData env
           (calls s @ [(cntry, ''Interest Rate''), (cntry, ''GDP Growth Rate'')])
           cntry ''Inflation Rate'')"
    and "provider_fails (getIndicatorData env
           (calls s @ [(cntry, ''Interest Rate''), (cntry, ''GDP Growth Rate''),
                       (cntry, ''Inflation Rate'')])
           cntry ''Unemployment Rate'')"
  shows "fst (get_country_indicators env s cntry) =
           Inr \<lparr>country = cntry, interest_rate = None, gdp_growth = None,
                inflation_rate = None, unemployment_rate = None,
                last_updated = now_isoformat env (ticks s)\<rparr>
         \<and> status_code (fst (get_country_indicators env s cntry)) = 200"
proof -
  obtain r s' where g: "get_country_economic_data env s cntry = (r, s')"
    by (cases "get_country_economic_data env s cntry")
  with all_fetches_fail [OF assms]
  have "r = Inr \<lparr>country = cntry, interest_rate = None, gdp_growth = None,
                 inflation_rate = None, unemployment_rate = None,
                 last_updated = now_isoformat env (ticks s)\<rparr>"
    by simp
  with g show ?thesis by (simp add: get_country_indicators_def)
qed

theorem all_fetches_fail_still_200_witness:
  "provider_fails (getIndicatorData example_env (calls s0) ''Canada'' ''Interest Rate'')
   \<and> provider_fails (getIndicatorData example_env (calls s0) ''Euro Area'' ''Interest Rate'')
   \<and> provider_fails (getIndicatorData example_env (calls s0) ''Switzerland'' ''Interest Rate'')
   \<and> fst (get_country_indicators example_env s0 ''Canada'') =
       Inr \<lparr>country = ''Canada'', interest_rate = None, gdp_growth = None,
            inflation_rate = None, unemployment_rate = None,
            last_updated = ''2024-01-31T12:00:00''\<rparr>
   \<and> status_code (fst (get_country_indicators example_env s0 ''Canada'')) = 200"
proof -
  have h: "\<And>history indicator.
             provider_fails (getIndicatorData example_env history ''Canada'' indicator)"
    by (simp add: example_env_def)
  have n: "now_isoformat example_env (ticks s0) = ''2024-01-31T12:00:00''"
    by (simp add: example_env_def s0_def char_of_def bit_Suc_0_iff)
  have o: "provider_fails (getIndicatorData example_env (calls s0) ''Euro Area'' ''Interest Rate'')
           \<and> provider_fails (getIndicatorData example_env (calls s0) ''Switzerland'' ''Interest Rate'')"
    by (simp add: example_env_def df_empty_def)
  from all_fetches_fail_still_200 [of example_env s0 "''Canada''", OF h h h h] h n o
  show ?thesis by simp
qed

section \<open>The aggregator can raise\<close>





section \<open>The currency pair endpoint: supported codes\<close>

lemma dict_subscript_key:
  "k \<in> set (dict_keys d) \<Longrightarrow> \<exists>v. map_of d k = Some v \<and> dict_subscript d k = Inr v"
  by (cases "map_of d k") (auto simp add: dict_subscript_def dict_keys_def map_of_eq_None_iff)

text \<open>With two supported codes the endpoint is the composition of two runs of the
  aggregator, the second from the state the first one left.\<close>

lemma pair_supported:
  assumes "upper env base \<in> set (dict_keys CURRENCY_COUNTRY_MAP)"
    and "upper env quote \<in> set (dict_keys CURRENCY_COUNTRY_MAP)"
  shows "\<exists>base_country quote_country.
           map_of CURRENCY_COUNTRY_MAP (upper env base) = Some base_country
         \<and> map_of CURRENCY_COUNTRY_MAP (upper env quote) = Some quote_country
         \<and> get_currency_pair_data env s base quote =
             (case get_country_economic_data env s base_country of
                (Inl e, s1) \<Rightarrow>
                  (Inl (HTTPException 500 ''Error fetching currency pair data''),
                   s1\<lparr>log := log s1 @ [Error_pair]\<rparr>)
              | (Inr base_data, s1) \<Rightarrow>
                  (case get_country_economic_data env s1 quote_country of
                     (Inl e, s2) \<Rightarrow>
                       (Inl (HTTPException 500 ''Error fetching currency pair data''),
                        s2\<lparr>log := log s2 @ [Error_pair]\<rparr>)
                   | (Inr quote_data, s2) \<Rightarrow>
                       (Inr \<lparr>base_currency = upper env base, quote_currency = upper env quote,
                             base_country_data = base_data,
                             quote_country_data = quote_data\<rparr>, s2)))"
proof -
  from dict_subscript_key [OF assms(1)] obtain bc
    where b: "map_of CURRENCY_COUNTRY_MAP (upper env base) = Some bc"
      "dict_subscript CURRENCY_COUNTRY_MAP (upper env base) = Inr bc" by blast
  from dict_subscript_key [OF assms(2)] obtain qc
    where q: "map_of CURRENCY_COUNTRY_MAP (upper env quote) = Some qc"
      "dict_subscript CURRENCY_COUNTRY_MAP (upper env quote) = Inr qc" by blast
  have "get_currency_pair_data env s base quote =
             (case get_country_economic_data env s bc of
                (Inl e, s1) \<Rightarrow>
                  (Inl (HTTPException 500 ''Error fetching currency pair data''),
                   s1\<lparr>log := log s1 @ [Error_pair]\<rparr>)
              | (Inr base_data, s1) \<Rightarrow>
                  (case get_country_economic_data env s1 qc of
                     (Inl e, s2) \<Rightarrow>
                       (Inl (HTTPException 500 ''Error fetching currency pair data''),
                        s2\<lparr>log := log s2 @ [Error_pair]\<rparr>)
                   | (Inr quote_data, s2) \<Rightarrow>
                       (Inr \<lparr>base_currency = upper env base, quote_currency = upper env quote,
                             base_country_data = base_data,
                             quote_country_data = quote_data\<rparr>, s2)))"
    unfolding get_currency_pair_data_def Let_def using assms
    by (simp add: b(2) q(2))
  with b(1) q(1) show ?thesis by blast
qed

lemma pair_supported_result:
  assumes "upper env base \<in> set (dict_keys CURRENCY_COUNTRY_MAP)"
    and "upper env quote \<in> set (dict_keys CURRENCY_COUNTRY_MAP)"
  shows "case fst (get_currency_pair_data env s base quote) of
           Inr p \<Rightarrow> base_currency p = upper env base \<and> quote_currency p = upper env quote
         | Inl e \<Rightarrow> e = HTTPException 500 ''Error fetching currency pair data''"
proof -
  from pair_supported [OF assms, of s] obtain bc qc where
    g: "get_currency_pair_data env s base quote =
             (case get_country_economic_data env s bc of
                (Inl e, s1) \<Rightarrow>
                  (Inl (HTTPException 500 ''Error fetching currency pair data''),
                   s1\<lparr>log := log s1 @ [Error_pair]\<rparr>)
              | (Inr base_data, s1) \<Rightarrow>
                  (case get_country_economic_data env s1 qc of
                     (Inl e, s2) \<Rightarrow>
                       (Inl (HTTPException 500 ''Error fetching currency pair data''),
                        s2\<lparr>log := log s2 @ [Error_pair]\<rparr>)
                   | (Inr quote_data, s2) \<Rightarrow>
                       (Inr \<lparr>base_currency = upper env base, quote_currency = upper env quote,
                             base_country_data = base_data,
                             quote_country_data = quote_data\<rparr>, s2)))"
    by blast
  show ?thesis
    unfolding g by (simp split: prod.splits sum.splits)
qed

text \<open>The aggregator on a country the example provider has a well-formed frame for.\<close>

lemma example_aggregate:
  assumes "cntry \<noteq> ''Canada''" "cntry \<noteq> ''Euro Area''" "cntry \<noteq> ''Switzerland''"
    "cntry \<noteq> ''Brazil''"
  shows "get_country_economic_data example_env s cntry =
     (Inr \<lparr>country = cntry,
           interest_rate = Some \<lparr>ei_country = cntry, ei_indicator = ''Interest Rate'',
             ei_value = None, ei_previous_value = Some 4, ei_last_update = None,
             ei_unit = Some ''percent'', ei_frequency = Some ''Daily''\<rparr>,
           gdp_growth = Some \<lparr>ei_country = cntry, ei_indicator = ''GDP Growth Rate'',
             ei_value = None, ei_previous_value = Some 4, ei_last_update = None,
             ei_unit = Some ''percent'', ei_frequency = Some ''Daily''\<rparr>,
           inflation_rate = Some \<lparr>ei_country = cntry, ei_indicator = ''Inflation Rate'',
             ei_value = None, ei_previous_value = Some 4, ei_last_update = None,
             ei_unit = Some ''percent'', ei_frequency = Some ''Daily''\<rparr>,
           unemployment_rate = Some \<lparr>ei_country = cntry, ei_indicator = ''Unemployment Rate'',
             ei_value = None, ei_previous_value = Some 4, ei_last_update = None,
             ei_unit = Some ''percent'', ei_frequency = Some ''Daily''\<rparr>,
           last_updated = now_isoformat example_env (ticks s)\<rparr>,
      s\<lparr>calls := calls s @ [(cntry, ''Interest Rate''), (cntry, ''GDP Growth Rate''),
                              (cntry, ''Inflation Rate''), (cntry, ''Unemployment Rate'')],
        ticks := Suc (ticks s)\<rparr>)"
proof -
  have g: "\<And>history indicator.
     getIndicatorData example_env history cntry indicator = TeFrame (example_frame cntry)"
    using assms by (simp add: example_env_def)
  have f: "\<And>s indicator. safe_get_indicator_data example_env s cntry indicator =
     (Some \<lparr>d_country = PyStr cntry, d_indicator = PyStr indicator, d_value = PyNone,
            d_previous_value = PyFloat 4, d_last_update = PyNone,
            d_unit = PyStr ''percent'', d_frequency = PyStr ''Daily''\<rparr>,
      s\<lparr>calls := calls s @ [(cntry, indicator)]\<rparr>)"
    by (simp add: safe_get_cases g example_frame_def df_empty_def iloc_last_def)
  have i: "\<And>indicator. EconomicIndicator_init example_env
     \<lparr>d_country = PyStr cntry, d_indicator = PyStr indicator, d_value = PyNone,
      d_previous_value = PyFloat 4, d_last_update = PyNone,
      d_unit = PyStr ''percent'', d_frequency = PyStr ''Daily''\<rparr> =
     Inr \<lparr>ei_country = cntry, ei_indicator = indicator,
             ei_value = None, ei_previous_value = Some 4, ei_last_update = None,
             ei_unit = Some ''percent'', ei_frequency = Some ''Daily''\<rparr>"
    by (simp add: EconomicIndicator_init_def)
  show ?thesis
    by (simp add: get_country_economic_data_def indicators_def f i CountryEconomicData_init_def)
qed


lemma map_of_usd: "map_of CURRENCY_COUNTRY_MAP ''USD'' = Some ''United States''"
  by (simp add: CURRENCY_COUNTRY_MAP_def)

lemma map_of_gbp: "map_of CURRENCY_COUNTRY_MAP ''GBP'' = Some ''United Kingdom''"
  by (simp add: CURRENCY_COUNTRY_MAP_def)

lemma upper_long_s: "upper example_env long_s_usd = ''USD''"
  by (simp add: upper.simps long_s_usd_def example_env_def example_unicode_upper_def
      is_continuation_def ascii_upper_def char_of_def bit_Suc_0_iff)

lemma example_pair_usd_gbp:
  assumes "upper example_env base = ''USD''" and "upper example_env quote = ''GBP''"
  shows "fst (get_currency_pair_data example_env s0 base quote) =
     Inr \<lparr>base_currency = ''USD'', quote_currency = ''GBP'',
          base_country_data =
            projr (fst (get_country_economic_data example_env s0 ''United States'')),
          quote_country_data =
            projr (fst (get_country_economic_data example_env
              (snd (get_country_economic_data example_env s0 ''United States''))
              ''United Kingdom''))\<rparr>"
proof -
  have k: "''USD'' \<in> set (dict_keys CURRENCY_COUNTRY_MAP)"
    "''GBP'' \<in> set (dict_keys CURRENCY_COUNTRY_MAP)"
    by (simp_all add: keys_eq)
  have d: "dict_subscript CURRENCY_COUNTRY_MAP ''USD'' = Inr ''United States''"
    "dict_subscript CURRENCY_COUNTRY_MAP ''GBP'' = Inr ''United Kingdom''"
    by (simp_all add: dict_subscript_def map_of_usd map_of_gbp)
  show ?thesis
    unfolding get_currency_pair_data_def Let_def assms
    using k by (simp add: d example_aggregate)
qed

text \<open>
  Claim C7. For two inputs whose uppercase forms are keys of the static table, the
  \<open>CurrencyPairData\<close> the endpoint returns carries the uppercased inputs as its base
  and quote currency, also when the inputs were in lower or mixed case. The uppercase
  form is Python's: the input with a long s in place of the s is uppercased to USD.
\<close>

theorem pair_codes_uppercased:
  assumes "upper env base \<in> set (dict_keys CURRENCY_COUNTRY_MAP)"
    and "upper env quote \<in> set (dict_keys CURRENCY_COUNTRY_MAP)"
    and "get_currency_pair_data env s base quote = (Inr p, s')"
  shows "base_currency p = upper env base \<and> quote_currency p = upper env quote"
  using pair_supported_result [OF assms(1,2), of s] assms(3) by simp

theorem pair_codes_uppercased_witness:
  "upper example_env ''usd'' \<in> set (dict_keys CURRENCY_COUNTRY_MAP)
   \<and> upper example_env ''GbP'' \<in> set (dict_keys CURRENCY_COUNTRY_MAP)
   \<and> status_code (fst (get_currency_pair_data example_env s0 ''usd'' ''GbP'')) = 200
   \<and> base_currency (projr (fst (get_currency_pair_data example_env s0 ''usd'' ''GbP''))) = ''USD''
   \<and> quote_currency (projr (fst (get_currency_pair_data example_env s0 ''usd'' ''GbP''))) = ''GBP''
   \<and> upper example_env long_s_usd \<in> set (dict_keys CURRENCY_COUNTRY_MAP)
   \<and> status_code (fst (get_currency_pair_data example_env s0 long_s_usd ''GbP'')) = 200
   \<and> base_currency (projr (fst (get_currency_pair_data example_env s0 long_s_usd ''GbP'')))
       = ''USD''
   \<and> quote_currency (projr (fst (get_currency_pair_data example_env s0 long_s_usd ''GbP'')))
       = ''GBP''"
proof -
  have b: "upper example_env ''usd'' \<in> set (dict_keys CURRENCY_COUNTRY_MAP)"
    by (simp add: upper_usd keys_eq)
  have l: "upper example_env long_s_usd \<in> set (dict_keys CURRENCY_COUNTRY_MAP)"
    by (simp add: upper_long_s keys_eq)
  have q: "upper example_env ''GbP'' \<in> set (dict_keys CURRENCY_COUNTRY_MAP)"
    by (simp add: upper_GbP keys_eq)
  obtain p s' where g: "get_currency_pair_data example_env s0 ''usd'' ''GbP'' = (Inr p, s')"
    using example_pair_usd_gbp [OF upper_usd upper_GbP]
    by (cases "get_currency_pair_data example_env s0 ''usd'' ''GbP''") auto
  obtain p2 s2 where g2: "get_currency_pair_data example_env s0 long_s_usd ''GbP'' = (Inr p2, s2)"
    using example_pair_usd_gbp [OF upper_long_s upper_GbP]
    by (cases "get_currency_pair_data example_env s0 long_s_usd ''GbP''") auto
  from pair_codes_uppercased [OF b q g] pair_codes_uppercased [OF l q g2] b l q g g2
  show ?thesis
    by (simp add: upper_usd upper_GbP upper_long_s)
qed






section \<open>The list endpoints\<close>







subsection \<open>The example providers on the default countries\<close>












section \<open>The sweep over the major currency pairs\<close>








subsection \<open>The sweep with the provider that answers a malformed row for Japan\<close>









section \<open>A remark on the value field\<close>

text \<open>
  The \<^verbatim>\<open>value\<close> of a dictionary is the \<^verbatim>\<open>LastUpdate\<close> cell, and the model declares
  \<^verbatim>\<open>value\<close> a float: a dictionary whose \<^verbatim>\<open>LastUpdate\<close> is a text that is no numeral
  never becomes an \<open>EconomicIndicator\<close>.
\<close>

lemma dated_value_rejected:
  assumes "d_value d = PyStr t" and "float_of_str env t = None"
  shows "EconomicIndicator_init env d = Inl ValidationError"
proof -
  have v: "validate_opt_float env (d_value d) = Inl ValidationError"
    using assms by simp
  show ?thesis
  proof (cases "validate_str env (d_country d)")
    case (Inl e)
    then have "e = ValidationError" by (rule validate_str_error)
    with Inl show ?thesis by (simp add: EconomicIndicator_init_def)
  next
    case c: (Inr c)
    show ?thesis
    proof (cases "validate_str env (d_indicator d)")
      case (Inl e)
      then have "e = ValidationError" by (rule validate_str_error)
      with Inl c show ?thesis by (simp add: EconomicIndicator_init_def)
    next
      case (Inr i)
      with c v show ?thesis by (simp add: EconomicIndicator_init_def)
    qed
  qed
qed

lemma dated_frame_rejected:
  "get_country_economic_data example_env s0 ''Brazil'' =
     (Inl ValidationError, \<lparr>calls = [(''Brazil'', ''Interest Rate'')], ticks = 0, log = []\<rparr>)"
proof -
  have "EconomicIndicator_init example_env
          \<lparr>d_country = PyStr ''Brazil'', d_indicator = PyStr ''Interest Rate'',
           d_value = PyStr ''2024-01-31T00:00:00'', d_previous_value = PyNone,
           d_last_update = PyStr ''2024-01-31T00:00:00'', d_unit = PyNone,
           d_frequency = PyNone\<rparr> = Inl ValidationError"
    by (rule dated_value_rejected [where t = "''2024-01-31T00:00:00''"])
       (simp_all add: example_env_def)
  then show ?thesis
    by (simp add: get_country_economic_data_def indicators_def fetch_brazil)
qed

end
